theory Spec2Isabelle
  imports Complex_Main "HOL-Library.Multiset"
begin

section \<open>The object graph that plot_timetree walks\<close>

text \<open>
  \<^verbatim>\<open>src/bin/visualize_tree.py\<close> receives a tree object from the tree library and reads, for
  every object in \<^verbatim>\<open>tree.Objects\<close>, the attributes \<^verbatim>\<open>parent\<close>, \<^verbatim>\<open>children\<close>, \<^verbatim>\<open>name\<close>,
  \<^verbatim>\<open>traits\<close>, \<^verbatim>\<open>absoluteTime\<close> and \<^verbatim>\<open>y\<close>. Parent and child attributes are references to
  other objects, and line 73 compares two references for identity, so the objects live in
  an explicit store: a reference is a natural number, \<open>heap\<close> maps a reference to the
  object's attributes. Python floats are modelled as real numbers (no rounding); the
  attribute \<^verbatim>\<open>y\<close> is called \<open>ypos\<close>. The attribute \<^verbatim>\<open>traits\<close> is optional, as the code probes
  it with \<^verbatim>\<open>hasattr\<close>.
\<close>

type_synonym ref = nat

record node =
  name :: string
  parent :: "ref option"
  children :: "ref list"
  traits :: "(string \<rightharpoonup> real) option"
  absoluteTime :: real
  ypos :: real

record tree =
  Objects :: "ref list"
  heap :: "ref \<Rightarrow> node"

datatype error = IndexError | ValueError

datatype tier = High | Medium

datatype primitive =
    BranchSegment real real real
  | ConnectorSegment real real real
  | TipLabel real real string
  | SupportMarker real real tier

text \<open>
  \<open>BranchSegment x0 y x1\<close> is the horizontal line appended at lines 69-70,
  \<open>ConnectorSegment x y0 y1\<close> the vertical line appended at lines 77-78,
  \<open>TipLabel x y text\<close> the call of \<^verbatim>\<open>ax.text\<close> at line 87 and \<open>SupportMarker x y tier\<close> the
  call of \<^verbatim>\<open>ax.plot\<close> at lines 99 (red, \<open>High\<close>) and 102 (orange, \<open>Medium\<close>).
\<close>

fun is_branch :: "primitive \<Rightarrow> bool" where
  "is_branch (BranchSegment _ _ _) = True"
| "is_branch _ = False"

fun is_connector :: "primitive \<Rightarrow> bool" where
  "is_connector (ConnectorSegment _ _ _) = True"
| "is_connector _ = False"

fun is_tip_label :: "primitive \<Rightarrow> bool" where
  "is_tip_label (TipLabel _ _ _) = True"
| "is_tip_label _ = False"

fun is_marker :: "primitive \<Rightarrow> bool" where
  "is_marker (SupportMarker _ _ _) = True"
| "is_marker _ = False"

text \<open>Python's \<^verbatim>\<open>min\<close> and \<^verbatim>\<open>max\<close> of a list raise ValueError on the empty list.\<close>

fun py_min :: "real list \<Rightarrow> error + real" where
  "py_min [] = Inl ValueError"
| "py_min (x # xs) = Inr (fold min xs x)"

fun py_max :: "real list \<Rightarrow> error + real" where
  "py_max [] = Inl ValueError"
| "py_max (x # xs) = Inr (fold max xs x)"

text \<open>
  Modelled from the spec: \<^verbatim>\<open>getExternal\<close> and \<^verbatim>\<open>getInternal\<close> are methods of the tree library,
  which is not part of the sources. The spec's leaves-only view is the objects without
  children, the internal nodes are the others; both keep the order of \<^verbatim>\<open>Objects\<close>.
\<close>

definition getExternal :: "tree \<Rightarrow> ref list" where
  "getExternal t = filter (\<lambda>k. children (heap t k) = []) (Objects t)"

definition getInternal :: "tree \<Rightarrow> ref list" where
  "getInternal t = filter (\<lambda>k. children (heap t k) \<noteq> []) (Objects t)"

subsection \<open>Lines 62-78: branches and connectors\<close>

text \<open>
  One iteration of the loop at line 66. An object without parent appends nothing. Any
  other object appends its horizontal branch; \<^verbatim>\<open>node.parent.children[0]\<close> raises IndexError
  when the parent has no children; the first child of its parent also appends the
  vertical connector of the parent when the parent has more than one child.
\<close>

definition draw_node :: "tree \<Rightarrow> ref \<Rightarrow> error + primitive list" where
  "draw_node t n =
     (case parent (heap t n) of
        None \<Rightarrow> Inr []
      | Some p \<Rightarrow>
          (let branch = BranchSegment (absoluteTime (heap t p)) (ypos (heap t n))
                          (absoluteTime (heap t n))
           in case children (heap t p) of
                [] \<Rightarrow> Inl IndexError
              | c # _ \<Rightarrow>
                  if c = n then
                    (let child_ys = map (\<lambda>c. ypos (heap t c)) (children (heap t p))
                     in if length child_ys > 1 then
                          (case py_min child_ys of
                             Inl e \<Rightarrow> Inl e
                           | Inr lo \<Rightarrow>
                               (case py_max child_ys of
                                  Inl e \<Rightarrow> Inl e
                                | Inr hi \<Rightarrow>
                                    Inr [branch,
                                         ConnectorSegment (absoluteTime (heap t p)) lo hi]))
                        else Inr [branch])
                  else Inr [branch]))"

text \<open>The loop: the lists grow in iteration order; an exception ends the function.\<close>

fun collect :: "('a \<Rightarrow> error + 'b list) \<Rightarrow> 'a list \<Rightarrow> error + 'b list" where
  "collect f [] = Inr []"
| "collect f (x # xs) =
     (case f x of
        Inl e \<Rightarrow> Inl e
      | Inr ps \<Rightarrow> (case collect f xs of Inl e \<Rightarrow> Inl e | Inr qs \<Rightarrow> Inr (ps @ qs)))"

definition draw_branches :: "tree \<Rightarrow> error + primitive list" where
  "draw_branches t = collect (draw_node t) (Objects t)"

subsection \<open>Lines 84-88: tip labels\<close>

text \<open>
  \<^verbatim>\<open>sorted\<close> is a stable sort by the key; \<open>sort_key\<close> is a stable insertion sort. The text
  of a label is the tip's name after two blanks.
\<close>

definition sorted_tips :: "tree \<Rightarrow> ref list" where
  "sorted_tips t = sort_key (\<lambda>x. ypos (heap t x)) (getExternal t)"

definition draw_tip_labels :: "tree \<Rightarrow> primitive list" where
  "draw_tip_labels t =
     map (\<lambda>tip. TipLabel (absoluteTime (heap t tip)) (ypos (heap t tip))
                  (''  '' @ name (heap t tip)))
       (sorted_tips t)"

subsection \<open>Lines 90-103: posterior support\<close>

text \<open>
  \<open>posterior_of\<close> is lines 93-96: None unless the object has traits with the key
  \<^verbatim>\<open>posterior\<close>. Lines 98-103 test the truth value of \<^verbatim>\<open>posterior\<close> first: None and 0.0
  are false.
\<close>

definition posterior_of :: "node \<Rightarrow> real option" where
  "posterior_of nd =
     (case traits nd of
        None \<Rightarrow> None
      | Some tr \<Rightarrow> (if ''posterior'' \<in> dom tr then tr ''posterior'' else None))"

definition truthy :: "real option \<Rightarrow> bool" where
  "truthy v = (case v of None \<Rightarrow> False | Some x \<Rightarrow> x \<noteq> 0)"

definition support_marker :: "node \<Rightarrow> primitive list" where
  "support_marker nd =
     (let posterior = posterior_of nd
      in if truthy posterior \<and> the posterior \<ge> 0.95 then
           [SupportMarker (absoluteTime nd) (ypos nd) High]
         else if truthy posterior \<and> the posterior \<ge> 0.75 then
           [SupportMarker (absoluteTime nd) (ypos nd) Medium]
         else [])"

definition draw_markers :: "tree \<Rightarrow> primitive list" where
  "draw_markers t = concat (map (\<lambda>k. support_marker (heap t k)) (getInternal t))"

subsection \<open>Lines 105-113: axis limits\<close>

record axes =
  xlim :: "real \<times> real"
  ylim :: "real \<times> real"

definition axis_limits :: "tree \<Rightarrow> error + axes" where
  "axis_limits t =
     (let times = map (\<lambda>k. absoluteTime (heap t k)) (Objects t)
      in case py_min times of
           Inl e \<Rightarrow> Inl e
         | Inr min_time \<Rightarrow>
             (case py_max times of
                Inl e \<Rightarrow> Inl e
              | Inr max_time \<Rightarrow>
                  (let time_range = max_time - min_time
                   in Inr \<lparr>xlim = (min_time - time_range * 0.05, max_time + time_range * 0.3),
                           ylim = (- 0.5, real (length (sorted_tips t)) - 0.5)\<rparr>)))"

subsection \<open>Lines 58-113 together\<close>

record plot =
  primitives :: "primitive list"
  limits :: axes

definition plot_timetree :: "tree \<Rightarrow> error + plot" where
  "plot_timetree t =
     (case draw_branches t of
        Inl e \<Rightarrow> Inl e
      | Inr segments \<Rightarrow>
          (case axis_limits t of
             Inl e \<Rightarrow> Inl e
           | Inr ax \<Rightarrow>
               Inr \<lparr>primitives = segments @ draw_tip_labels t @ draw_markers t,
                     limits = ax\<rparr>))"

subsection \<open>The tree invariant of the data model\<close>

text \<open>
  The spec's Tree invariant, as far as the plotting code relies on it: every object is
  listed once; an object's parent is listed and has the object among its children; the
  children of a listed object are pairwise different, listed, and point back to it.
\<close>

definition wf_tree :: "tree \<Rightarrow> bool" where
  "wf_tree t \<longleftrightarrow>
     distinct (Objects t) \<and>
     (\<forall>n \<in> set (Objects t).
        case parent (heap t n) of
          None \<Rightarrow> True
        | Some p \<Rightarrow> p \<in> set (Objects t) \<and> n \<in> set (children (heap t p))) \<and>
     (\<forall>p \<in> set (Objects t).
        distinct (children (heap t p)) \<and>
        (\<forall>c \<in> set (children (heap t p)).
           c \<in> set (Objects t) \<and> parent (heap t c) = Some p))"

text \<open>
  Example stores that satisfy the invariant: a tree of the shape \<^verbatim>\<open>((A,B),C)\<close> with
  coordinates on every object, and a tree with a single node.
\<close>

definition mk_node ::
  "string \<Rightarrow> ref option \<Rightarrow> ref list \<Rightarrow> (string \<rightharpoonup> real) option \<Rightarrow> real \<Rightarrow> real \<Rightarrow> node" where
  "mk_node nm p cs tr tm yy =
     \<lparr>name = nm, parent = p, children = cs, traits = tr, absoluteTime = tm, ypos = yy\<rparr>"

definition example_heap :: "ref \<Rightarrow> node" where
  "example_heap r =
     (if r = 0 then mk_node ''root'' None [1, 4] (Some Map.empty) 4 (5 / 4)
      else if r = 1 then mk_node ''AB'' (Some 0) [2, 3] (Some [''posterior'' \<mapsto> 0.95]) 3 (1 / 2)
      else if r = 2 then mk_node ''A'' (Some 1) [] (Some Map.empty) 2 0
      else if r = 3 then mk_node ''B'' (Some 1) [] (Some Map.empty) 1 1
      else mk_node ''C'' (Some 0) [] (Some Map.empty) 0 2)"

definition example_tree :: tree where
  "example_tree = \<lparr>Objects = [0, 1, 2, 3, 4], heap = example_heap\<rparr>"

definition single_tree :: tree where
  "single_tree =
     \<lparr>Objects = [0], heap = (\<lambda>r. mk_node ''A'' None [] (Some Map.empty) 0 0)\<rparr>"

text \<open>
  A tree of the same shape as the program receives it from the library, with the times of
  line 42 and the vertical positions of the example above. The library gives the root a
  parent as well: a placeholder object that is not listed in \<^verbatim>\<open>Objects\<close>, has the root as
  its only child and never gets a time (its \<^verbatim>\<open>absoluteTime\<close> and \<^verbatim>\<open>y\<close> stay unset; the store,
  whose coordinates are numbers, holds 0 there, and the statements about these stores do
  not depend on that number). The placeholder has the reference 5, and the reference 1 in
  the tree with a single node. Such a store does not satisfy \<open>wf_tree\<close>, because the
  parent of its root is not listed.
\<close>

definition loaded_heap :: "ref \<Rightarrow> node" where
  "loaded_heap r =
     (if r = 0 then mk_node ''root'' (Some 5) [1, 4] (Some Map.empty) 0 (5 / 4)
      else if r = 1 then mk_node ''AB'' (Some 0) [2, 3] (Some [''posterior'' \<mapsto> 0.95]) 1 (1 / 2)
      else if r = 2 then mk_node ''A'' (Some 1) [] (Some Map.empty) 2 0
      else if r = 3 then mk_node ''B'' (Some 1) [] (Some Map.empty) 3 1
      else if r = 4 then mk_node ''C'' (Some 0) [] (Some Map.empty) 4 2
      else mk_node ''Root'' None [0] (Some Map.empty) 0 0)"

definition loaded_tree :: tree where
  "loaded_tree = \<lparr>Objects = [0, 1, 2, 3, 4], heap = loaded_heap\<rparr>"



subsection \<open>What each object contributes, in the words of the spec\<close>

text \<open>
  The following definitions are not part of the program; they state the geometry of the
  spec (section 4.4) over the same store, to be compared with \<open>draw_branches\<close>.
  \<open>branch_segment\<close> is the horizontal segment of an object and its parent;
  \<open>connector_segment\<close> is the vertical segment of a parent: at the parent's time, from the
  least to the greatest vertical position of its immediate children.
\<close>

definition branch_segment :: "tree \<Rightarrow> ref \<times> ref \<Rightarrow> primitive" where
  "branch_segment t e =
     BranchSegment (absoluteTime (heap t (fst e))) (ypos (heap t (snd e)))
       (absoluteTime (heap t (snd e)))"

definition child_ys :: "tree \<Rightarrow> ref \<Rightarrow> real list" where
  "child_ys t p = map (\<lambda>c. ypos (heap t c)) (children (heap t p))"

definition connector_segment :: "tree \<Rightarrow> ref \<Rightarrow> primitive" where
  "connector_segment t p =
     ConnectorSegment (absoluteTime (heap t p)) (Min (set (child_ys t p))) (Max (set (child_ys t p)))"

text \<open>
  \<open>node_segments\<close> is the output of one iteration on a well-formed tree;
  \<open>emits_connector\<close> holds for the objects whose iteration appends a connector, and
  \<open>parent_ref\<close> reads the parent of an object that has one.
\<close>

definition node_segments :: "tree \<Rightarrow> ref \<Rightarrow> primitive list" where
  "node_segments t n =
     (case parent (heap t n) of
        None \<Rightarrow> []
      | Some p \<Rightarrow>
          branch_segment t (p, n) #
          (if hd (children (heap t p)) = n \<and> 2 \<le> length (children (heap t p))
           then [connector_segment t p] else []))"



text \<open>
  \<open>primitive_y\<close> reads the vertical coordinate of a primitive (the lower end of a
  connector); \<open>all_times\<close> is the list built at lines 106 and 107.
\<close>

fun primitive_y :: "primitive \<Rightarrow> real" where
  "primitive_y (BranchSegment _ y _) = y"
| "primitive_y (ConnectorSegment _ y0 _) = y0"
| "primitive_y (TipLabel _ y _) = y"
| "primitive_y (SupportMarker _ y _) = y"

definition all_times :: "tree \<Rightarrow> real list" where
  "all_times t = map (\<lambda>k. absoluteTime (heap t k)) (Objects t)"

section \<open>Lines 30-39: loading the tree\<close>

text \<open>
  The two parsers belong to the tree library and are parameters here: each maps the file
  name to a tree or to the exception it raises. An exception is either an instance of
  \<^verbatim>\<open>Exception\<close>, with its message, or some other \<open>BaseException\<close> (a keyboard interrupt,
  say). The first handler is a bare \<^verbatim>\<open>except:\<close> and catches both; the second one is
  \<^verbatim>\<open>except Exception as e\<close>, prints \<^verbatim>\<open>Error loading tree: e\<close> to the standard error stream
  and calls \<^verbatim>\<open>sys.exit(1)\<close>, while any other exception passes it. The outcomes of loading
  are: a tree, an exit with a status and the line printed, an exception that propagates,
  and the typed failure \<open>MalformedTreeError\<close> of the spec with the failures it aggregates,
  which the program never produces.
\<close>

datatype exn = Exception string | BaseException string

datatype 't outcome =
    Loaded 't
  | SysExit nat string
  | Propagated exn
  | MalformedTreeError "exn list"

definition load_tree ::
  "(string \<Rightarrow> exn + 't) \<Rightarrow> (string \<Rightarrow> exn + 't) \<Rightarrow> string \<Rightarrow> 't outcome" where
  "load_tree loadNexus loadNewick tree_file =
     (case loadNexus tree_file of
        Inr tree \<Rightarrow> Loaded tree
      | Inl _ \<Rightarrow>
          (case loadNewick tree_file of
             Inr tree \<Rightarrow> Loaded tree
           | Inl (Exception e) \<Rightarrow> SysExit 1 (''Error loading tree: '' @ e)
           | Inl (BaseException e) \<Rightarrow> Propagated (BaseException e)))"

text \<open>
  The loading policy in the words of the spec (section 9): an ordered list of parser
  strategies tried in sequence, the first success wins, and all failures are aggregated
  into one \<open>MalformedTreeError\<close> when every strategy fails.
\<close>

fun try_strategies :: "(string \<Rightarrow> exn + 't) list \<Rightarrow> string \<Rightarrow> exn list \<Rightarrow> 't outcome" where
  "try_strategies [] tree_file failures = MalformedTreeError failures"
| "try_strategies (s # ss) tree_file failures =
     (case s tree_file of
        Inr tree \<Rightarrow> Loaded tree
      | Inl e \<Rightarrow> try_strategies ss tree_file (failures @ [e]))"

definition load_by_strategies :: "(string \<Rightarrow> exn + 't) list \<Rightarrow> string \<Rightarrow> 't outcome" where
  "load_by_strategies strategies tree_file = try_strategies strategies tree_file []"

text \<open>Example parsers: two that raise an \<^verbatim>\<open>Exception\<close> and one that returns a tree.\<close>

definition failing_nexus :: "string \<Rightarrow> exn + tree" where
  "failing_nexus f = Inl (Exception ''not a nexus file'')"

definition failing_newick :: "string \<Rightarrow> exn + tree" where
  "failing_newick f = Inl (Exception ''not a newick file'')"

definition working_newick :: "string \<Rightarrow> exn + tree" where
  "working_newick f = Inr single_tree"

section \<open>Time propagation and vertical layout\<close>

text \<open>
  Modelled from the spec: line 42 (\<^verbatim>\<open>setAbsoluteTime\<close>, \<^verbatim>\<open>treeStats\<close>) and lines 55-56
  (\<^verbatim>\<open>traverse_tree\<close>, \<^verbatim>\<open>drawTree\<close>) call methods of the tree library, whose code is not
  part of the sources. The passes are therefore taken from sections 3, 4.2 and 4.3 of the
  spec, on the spec's own Tree Model: a node with an identifier, an optional branch length,
  the two derived coordinates (absent until a pass sets them) and its ordered children. A
  branch length is a float: a finite number, NaN or an infinity.
\<close>

datatype length_value = Finite real | NaN | PosInf | NegInf

datatype tnode =
  Node (node_id: string) (branch_length: "length_value option")
       (absolute_time: "real option") (vertical_position: "real option")
       (child_nodes: "tnode list")

datatype layout_error = InvalidBranchLengthError

text \<open>
  Modelled from the spec: section 4.2 on branch lengths. A missing length is valid and
  counts as 0; a negative, NaN or infinite length is invalid.
\<close>

fun valid_length :: "length_value option \<Rightarrow> bool" where
  "valid_length None = True"
| "valid_length (Some (Finite x)) = (0 \<le> x)"
| "valid_length (Some _) = False"

fun length_of :: "length_value option \<Rightarrow> real" where
  "length_of (Some (Finite x)) = x"
| "length_of _ = 0"

text \<open>
  Modelled from the spec: the traversal views of section 4.1 (pre-order, leaves only), which
  the tree library provides (not in the sources).
\<close>

fun all_nodes :: "tnode \<Rightarrow> tnode list" where
  "all_nodes (Node i bl tm vp cs) = Node i bl tm vp cs # concat (map all_nodes cs)"

fun leaves :: "tnode \<Rightarrow> tnode list" where
  "leaves (Node i bl tm vp cs) =
     (if cs = [] then [Node i bl tm vp cs] else concat (map leaves cs))"

text \<open>
  Modelled from the spec: the cumulative distances of section 4.2, computed by the tree
  library (not in the sources). The root's distance is given; a child's distance is its
  parent's plus the child's branch length. \<open>node_distances\<close> lists them in pre-order,
  \<open>leaf_distances\<close> for the leaves only; \<open>tree_height\<close> is the maximum over the leaves.
\<close>

fun node_distances :: "real \<Rightarrow> tnode \<Rightarrow> real list" where
  "node_distances d (Node i bl tm vp cs) =
     d # concat (map (\<lambda>c. node_distances (d + length_of (branch_length c)) c) cs)"

fun leaf_distances :: "real \<Rightarrow> tnode \<Rightarrow> real list" where
  "leaf_distances d (Node i bl tm vp cs) =
     (if cs = [] then [d]
      else concat (map (\<lambda>c. leaf_distances (d + length_of (branch_length c)) c) cs))"

definition tree_height :: "tnode \<Rightarrow> real" where
  "tree_height t = Max (set (leaf_distances 0 t))"

text \<open>
  Modelled from the spec: the assignment of section 4.2, done by the library method
  \<^verbatim>\<open>setAbsoluteTime(date)\<close> (not in the sources). The tree is anchored so that the most
  recent tip, the one whose cumulative distance is the tree height, is at the reference
  time \<open>date\<close>: a node at cumulative distance \<open>d\<close> lies \<open>tree_height - d\<close> before that tip and
  gets the absolute time \<open>date - (tree_height - d)\<close>. Time increases toward the present and
  the root has the smallest value.
\<close>

fun set_times :: "real \<Rightarrow> real \<Rightarrow> real \<Rightarrow> tnode \<Rightarrow> tnode" where
  "set_times date h d (Node i bl tm vp cs) =
     Node i bl (Some (date - (h - d))) vp
       (map (\<lambda>c. set_times date h (d + length_of (branch_length c)) c) cs)"

definition setAbsoluteTime :: "real \<Rightarrow> tnode \<Rightarrow> tnode" where
  "setAbsoluteTime date t = set_times date (tree_height t) 0 t"

text \<open>
  Line 42, \<^verbatim>\<open>tree.setAbsoluteTime(tree.treeStats()['height'])\<close>, passes the tree height as the
  reference time. The program has no check of branch lengths: lines 41-42 call the library
  without a guard, and nothing in the sources raises on a length or tests one. The pass of
  the program therefore returns a tree with a time on every node, whatever the lengths are.
  The arithmetic is modelled for lengths that are numbers; a length that is missing, NaN
  or infinite reads as 0 in \<open>length_of\<close>, and no statement below is made about such trees
  except through the check of the spec.
\<close>

definition propagate_times :: "tnode \<Rightarrow> tnode" where
  "propagate_times t = setAbsoluteTime (tree_height t) t"

text \<open>
  Modelled from the spec: Time Propagation in the words of sections 4.2 and 7, which put a
  check before the assignment: the pass fails with \<open>InvalidBranchLengthError\<close> when some
  length is invalid, and then returns no tree at all.
\<close>

definition time_propagation :: "tnode \<Rightarrow> layout_error + tnode" where
  "time_propagation t =
     (if list_all (\<lambda>n. valid_length (branch_length n)) (all_nodes t)
      then Inr (propagate_times t)
      else Inl InvalidBranchLengthError)"

text \<open>
  Modelled from the spec: the vertical layout of section 4.3, done by the tree library (not
  in the sources). A leaf takes the next slot of a counter, in the order in which a
  traversal of the children in input order meets the leaves; an internal node takes the
  arithmetic mean of the positions of its immediate children. The counter starts at 0.
\<close>

definition mean :: "real list \<Rightarrow> real" where
  "mean xs = sum_list xs / real (length xs)"

definition position :: "tnode \<Rightarrow> real" where
  "position n = (case vertical_position n of Some v \<Rightarrow> v | None \<Rightarrow> 0)"

fun layout :: "nat \<Rightarrow> tnode \<Rightarrow> nat \<times> tnode"
  and layouts :: "nat \<Rightarrow> tnode list \<Rightarrow> nat \<times> tnode list" where
  "layout k (Node i bl tm vp cs) =
     (if cs = [] then (Suc k, Node i bl tm (Some (real k)) [])
      else (case layouts k cs of
              (k', cs') \<Rightarrow> (k', Node i bl tm (Some (mean (map position cs'))) cs')))"
| "layouts k [] = (k, [])"
| "layouts k (c # cs) =
     (case layout k c of
        (k1, c') \<Rightarrow> (case layouts k1 cs of (k2, cs') \<Rightarrow> (k2, c' # cs')))"

definition vertical_layout :: "tnode \<Rightarrow> tnode" where
  "vertical_layout t = snd (layout 0 t)"

text \<open>The tree \<^verbatim>\<open>((A:1,B:2):1,C:4):0\<close> of the spec's scenario, before any pass.\<close>

definition scenario_tree :: tnode where
  "scenario_tree =
     Node ''root'' (Some (Finite 0)) None None
       [Node ''AB'' (Some (Finite 1)) None None
          [Node ''A'' (Some (Finite 1)) None None [],
           Node ''B'' (Some (Finite 2)) None None []],
        Node ''C'' (Some (Finite 4)) None None []]"

subsection \<open>Notions for stating the properties of the passes\<close>

text \<open>
  Modelled from the spec: the pipeline of section 2 runs Time Propagation and then Vertical
  Layout (both in the tree library, not in the sources); \<open>layout_passes\<close> is their
  composition.
\<close>

definition layout_passes :: "tnode \<Rightarrow> layout_error + tnode" where
  "layout_passes t = map_sum id vertical_layout (time_propagation t)"

text \<open>
  The remaining definitions are not part of the program. \<open>node_times\<close> and
  \<open>node_positions\<close> list the two coordinates of every node in pre-order, \<open>coordinates\<close>
  pairs them. \<open>erase_time\<close>, \<open>erase_position\<close> and \<open>erase\<close> forget coordinates; \<open>topology\<close>
  keeps the shape and the order of the children only, and \<open>position_tree\<close> the shape and
  the vertical positions. \<open>valid_lengths\<close> lists the validity of every branch length.
  \<open>finite_lengths\<close> holds when every branch length is a number, and \<open>tree_edges\<close> lists
  every node with each of its children.
\<close>

definition node_times :: "tnode \<Rightarrow> real option list" where
  "node_times t = map absolute_time (all_nodes t)"

definition node_positions :: "tnode \<Rightarrow> real option list" where
  "node_positions t = map vertical_position (all_nodes t)"

definition coordinates :: "tnode \<Rightarrow> real option list \<times> real option list" where
  "coordinates t = (node_times t, node_positions t)"

fun erase_time :: "tnode \<Rightarrow> tnode" where
  "erase_time (Node i bl tm vp cs) = Node i bl None vp (map erase_time cs)"

fun erase_position :: "tnode \<Rightarrow> tnode" where
  "erase_position (Node i bl tm vp cs) = Node i bl tm None (map erase_position cs)"

definition erase :: "tnode \<Rightarrow> tnode" where
  "erase t = erase_time (erase_position t)"

fun topology :: "tnode \<Rightarrow> tnode" where
  "topology (Node i bl tm vp cs) = Node [] None None None (map topology cs)"

fun position_tree :: "tnode \<Rightarrow> tnode" where
  "position_tree (Node i bl tm vp cs) = Node [] None None vp (map position_tree cs)"

definition valid_lengths :: "tnode \<Rightarrow> bool list" where
  "valid_lengths t = map (\<lambda>n. valid_length (branch_length n)) (all_nodes t)"




text \<open>
  Example trees: a single leaf, a tree with a negative branch length, and the scenario
  tree with the coordinates that both passes give it.
\<close>

definition single_leaf :: tnode where
  "single_leaf = Node ''A'' None None None []"


definition scenario_result :: tnode where
  "scenario_result =
     Node ''root'' (Some (Finite 0)) (Some 0) (Some (5 / 4))
       [Node ''AB'' (Some (Finite 1)) (Some 1) (Some (1 / 2))
          [Node ''A'' (Some (Finite 1)) (Some 2) (Some 0) [],
           Node ''B'' (Some (Finite 2)) (Some 3) (Some 1) []],
        Node ''C'' (Some (Finite 4)) (Some 4) (Some 2) []]"


section \<open>Properties of the branch and connector loop\<close>

lemma py_min_Min: "xs \<noteq> [] \<Longrightarrow> py_min xs = Inr (Min (set xs))"
  by (cases xs) (simp_all add: Min.set_eq_fold[symmetric])

lemma py_max_Max: "xs \<noteq> [] \<Longrightarrow> py_max xs = Inr (Max (set xs))"
  by (cases xs) (simp_all add: Max.set_eq_fold[symmetric])

lemma collect_Inr:
  "(\<And>x. x \<in> set xs \<Longrightarrow> f x = Inr (g x)) \<Longrightarrow> collect f xs = Inr (concat (map g xs))"
  by (induction xs) simp_all

lemma wf_parent_children:
  assumes "wf_tree t" "n \<in> set (Objects t)" "parent (heap t n) = Some p"
  shows "p \<in> set (Objects t) \<and> n \<in> set (children (heap t p))"
proof -
  from assms(1) have "\<forall>n \<in> set (Objects t).
        case parent (heap t n) of
          None \<Rightarrow> True
        | Some p \<Rightarrow> p \<in> set (Objects t) \<and> n \<in> set (children (heap t p))"
    unfolding wf_tree_def by (elim conjE)
  then have "case parent (heap t n) of
          None \<Rightarrow> True
        | Some p \<Rightarrow> p \<in> set (Objects t) \<and> n \<in> set (children (heap t p))"
    using assms(2) by (rule bspec)
  with assms(3) show ?thesis by simp
qed



lemma draw_node_root: "parent (heap t n) = None \<Longrightarrow> draw_node t n = Inr []"
  by (simp add: draw_node_def)

lemma draw_node_first:
  assumes "parent (heap t n) = Some p" "children (heap t p) = n # c # cs"
  shows "draw_node t n = Inr [branch_segment t (p, n), connector_segment t p]"
proof -
  have ne: "map (\<lambda>c. ypos (heap t c)) (n # c # cs) \<noteq> []" by simp
  show ?thesis
    unfolding draw_node_def branch_segment_def connector_segment_def child_ys_def
    using assms py_min_Min[OF ne] py_max_Max[OF ne]
    by (simp add: Let_def del: py_min.simps py_max.simps)
qed

lemma draw_node_only:
  assumes "parent (heap t n) = Some p" "children (heap t p) = [c]"
  shows "draw_node t n = Inr [branch_segment t (p, n)]"
  using assms by (simp add: draw_node_def branch_segment_def Let_def)

lemma draw_node_later:
  assumes "parent (heap t n) = Some p" "children (heap t p) = c # cs" "c \<noteq> n"
  shows "draw_node t n = Inr [branch_segment t (p, n)]"
  using assms by (simp add: draw_node_def branch_segment_def Let_def)

lemma draw_node_wf:
  assumes "wf_tree t" "n \<in> set (Objects t)"
  shows "draw_node t n = Inr (node_segments t n)"
proof (cases "parent (heap t n)")
  case None
  then show ?thesis by (simp add: draw_node_root node_segments_def)
next
  case (Some p)
  from wf_parent_children[OF assms Some] have "n \<in> set (children (heap t p))" by simp
  then obtain c cs where cs: "children (heap t p) = c # cs"
    by (cases "children (heap t p)") auto
  show ?thesis
  proof (cases "c = n")
    case True
    show ?thesis
    proof (cases cs)
      case Nil
      with True cs Some show ?thesis
        by (simp add: draw_node_only node_segments_def)
    next
      case (Cons d ds)
      with True cs Some show ?thesis
        by (simp add: draw_node_first node_segments_def)
    qed
  next
    case False
    with cs Some show ?thesis
      by (simp add: draw_node_later node_segments_def)
  qed
qed

lemma draw_branches_wf:
  "wf_tree t \<Longrightarrow> draw_branches t = Inr (concat (map (node_segments t) (Objects t)))"
  unfolding draw_branches_def by (rule collect_Inr) (rule draw_node_wf)











lemma example_heap_simps:
  "example_heap 0 = mk_node ''root'' None [1, 4] (Some Map.empty) 4 (5 / 4)"
  "example_heap (Suc 0) = mk_node ''AB'' (Some 0) [2, 3] (Some [''posterior'' \<mapsto> 0.95]) 3 (1 / 2)"
  "example_heap 1 = mk_node ''AB'' (Some 0) [2, 3] (Some [''posterior'' \<mapsto> 0.95]) 3 (1 / 2)"
  "example_heap 2 = mk_node ''A'' (Some 1) [] (Some Map.empty) 2 0"
  "example_heap 3 = mk_node ''B'' (Some 1) [] (Some Map.empty) 1 1"
  "example_heap 4 = mk_node ''C'' (Some 0) [] (Some Map.empty) 0 2"
  by (simp_all add: example_heap_def)

lemma wf_example_tree: "wf_tree example_tree"
  by (simp add: wf_tree_def example_tree_def example_heap_simps mk_node_def)





section \<open>Branch segments and the root\<close>

text \<open>
  One iteration of the loop, for any store: an object whose \<^verbatim>\<open>parent\<close> attribute is an object
  appends, when the iteration returns, exactly one horizontal segment, the one from the
  parent's time to its own time at its own height; an object without parent appends
  nothing.
\<close>

lemma draw_node_one_branch:
  assumes "parent (heap t n) = Some p" "draw_node t n = Inr segs"
  shows "filter is_branch segs =
           [BranchSegment (absoluteTime (heap t p)) (ypos (heap t n)) (absoluteTime (heap t n))]"
proof (cases "children (heap t p)")
  case Nil
  with assms show ?thesis by (simp add: draw_node_def)
next
  case (Cons c cs)
  show ?thesis
  proof (cases "c = n")
    case False
    from draw_node_later[OF assms(1) Cons False] assms(2) show ?thesis
      by (simp add: branch_segment_def)
  next
    case True
    show ?thesis
    proof (cases cs)
      case Nil
      with Cons have "children (heap t p) = [c]" by simp
      from draw_node_only[OF assms(1) this] assms(2) show ?thesis
        by (simp add: branch_segment_def)
    next
      case (Cons d ds)
      with \<open>children (heap t p) = c # cs\<close> True have "children (heap t p) = n # d # ds" by simp
      from draw_node_first[OF assms(1) this] assms(2) show ?thesis
        by (simp add: branch_segment_def connector_segment_def)
    qed
  qed
qed

lemma loaded_heap_simps:
  "loaded_heap 0 = mk_node ''root'' (Some 5) [1, 4] (Some Map.empty) 0 (5 / 4)"
  "loaded_heap (Suc 0) = mk_node ''AB'' (Some 0) [2, 3] (Some [''posterior'' \<mapsto> 0.95]) 1 (1 / 2)"
  "loaded_heap 1 = mk_node ''AB'' (Some 0) [2, 3] (Some [''posterior'' \<mapsto> 0.95]) 1 (1 / 2)"
  "loaded_heap 2 = mk_node ''A'' (Some 1) [] (Some Map.empty) 2 0"
  "loaded_heap 3 = mk_node ''B'' (Some 1) [] (Some Map.empty) 3 1"
  "loaded_heap 4 = mk_node ''C'' (Some 0) [] (Some Map.empty) 4 2"
  "loaded_heap 5 = mk_node ''Root'' None [0] (Some Map.empty) 0 0"
  by (simp_all add: loaded_heap_def)

lemma loaded_tree_nodes:
  "draw_node loaded_tree 0 = Inr [BranchSegment (absoluteTime (loaded_heap 5)) (5 / 4) 0]"
  "draw_node loaded_tree 1 = Inr [BranchSegment 0 (1 / 2) 1, ConnectorSegment 0 (1 / 2) 2]"
  "draw_node loaded_tree (Suc 0) = Inr [BranchSegment 0 (1 / 2) 1, ConnectorSegment 0 (1 / 2) 2]"
  "draw_node loaded_tree 2 = Inr [BranchSegment 1 0 2, ConnectorSegment 1 0 1]"
  "draw_node loaded_tree 3 = Inr [BranchSegment 1 1 3]"
  "draw_node loaded_tree 4 = Inr [BranchSegment 0 2 4]"
  by (simp_all add: draw_node_def loaded_tree_def loaded_heap_simps mk_node_def)

lemma loaded_tree_branches:
  "draw_branches loaded_tree =
     Inr [BranchSegment (absoluteTime (loaded_heap 5)) (5 / 4) 0,
          BranchSegment 0 (1 / 2) 1, ConnectorSegment 0 (1 / 2) 2,
          BranchSegment 1 0 2, ConnectorSegment 1 0 1,
          BranchSegment 1 1 3,
          BranchSegment 0 2 4]"
proof -
  have "draw_branches loaded_tree = collect (draw_node loaded_tree) [0, 1, 2, 3, 4]"
    by (simp add: draw_branches_def loaded_tree_def)
  then show ?thesis by (simp add: loaded_tree_nodes)
qed

lemma loaded_tree_connectors:
  "map_sum id (filter is_connector) (draw_branches loaded_tree) =
     Inr [ConnectorSegment 0 (1 / 2) 2, ConnectorSegment 1 0 1]"
  by (simp add: loaded_tree_branches)



section \<open>Support markers\<close>

lemma posterior_of_traits:
  "posterior_of nd = (case traits nd of None \<Rightarrow> None | Some tr \<Rightarrow> tr ''posterior'')"
  by (auto simp: posterior_of_def split: option.splits)

lemma support_marker_cases:
  "support_marker nd =
     (case posterior_of nd of
        None \<Rightarrow> []
      | Some p \<Rightarrow>
          if 0.95 \<le> p then [SupportMarker (absoluteTime nd) (ypos nd) High]
          else if 0.75 \<le> p then [SupportMarker (absoluteTime nd) (ypos nd) Medium]
          else [])"
  by (cases "posterior_of nd") (auto simp: support_marker_def truthy_def)

lemma example_internal: "getInternal example_tree = [0, 1]"
  by (simp add: getInternal_def example_tree_def example_heap_simps mk_node_def)

lemma example_markers: "draw_markers example_tree = [SupportMarker 3 (1 / 2) High]"
  by (simp add: draw_markers_def example_internal)
     (simp add: example_tree_def example_heap_simps support_marker_cases posterior_of_traits mk_node_def)


text \<open>
  Claim C3. For an object \<open>nd\<close>, lines 93-103 draw a high-tier marker exactly when it
  carries a posterior of at least 0.95, a medium-tier marker exactly when its posterior is
  at least 0.75 and below 0.95, and nothing exactly when it carries no posterior or one
  below 0.75; the posterior is absent exactly when the object has no traits or its traits
  have no key \<^verbatim>\<open>posterior\<close>. The markers drawn are those of the internal nodes, in order.
  At the boundaries: 0.95 gives a high-tier marker, 0.9499 a medium-tier one, 0.74 none.
\<close>

theorem support_marker_tiers:
  "(support_marker nd = [SupportMarker (absoluteTime nd) (ypos nd) High]) =
     (\<exists>p. posterior_of nd = Some p \<and> 0.95 \<le> p) \<and>
   (support_marker nd = [SupportMarker (absoluteTime nd) (ypos nd) Medium]) =
     (\<exists>p. posterior_of nd = Some p \<and> 0.75 \<le> p \<and> p < 0.95) \<and>
   (support_marker nd = []) =
     (posterior_of nd = None \<or> (\<exists>p. posterior_of nd = Some p \<and> p < 0.75)) \<and>
   (posterior_of nd = None) =
     (traits nd = None \<or> (\<exists>tr. traits nd = Some tr \<and> ''posterior'' \<notin> dom tr)) \<and>
   draw_markers t = concat (map (\<lambda>k. support_marker (heap t k)) (getInternal t)) \<and>
   support_marker (mk_node nm par cs (Some [''posterior'' \<mapsto> 0.95]) x v) = [SupportMarker x v High] \<and>
   support_marker (mk_node nm par cs (Some [''posterior'' \<mapsto> 0.9499]) x v) = [SupportMarker x v Medium] \<and>
   support_marker (mk_node nm par cs (Some [''posterior'' \<mapsto> 0.74]) x v) = []"
proof -
  have 1: "(support_marker nd = [SupportMarker (absoluteTime nd) (ypos nd) High]) =
     (\<exists>p. posterior_of nd = Some p \<and> 0.95 \<le> p)"
    by (cases "posterior_of nd") (auto simp: support_marker_cases)
  have 2: "(support_marker nd = [SupportMarker (absoluteTime nd) (ypos nd) Medium]) =
     (\<exists>p. posterior_of nd = Some p \<and> 0.75 \<le> p \<and> p < 0.95)"
    by (cases "posterior_of nd") (auto simp: support_marker_cases)
  have 3: "(support_marker nd = []) =
     (posterior_of nd = None \<or> (\<exists>p. posterior_of nd = Some p \<and> p < 0.75))"
    by (cases "posterior_of nd") (auto simp: support_marker_cases)
  have 4: "(posterior_of nd = None) =
     (traits nd = None \<or> (\<exists>tr. traits nd = Some tr \<and> ''posterior'' \<notin> dom tr))"
    by (cases "traits nd") (auto simp: posterior_of_def)
  have 5: "draw_markers t = concat (map (\<lambda>k. support_marker (heap t k)) (getInternal t))"
    by (simp add: draw_markers_def)
  have 6: "support_marker (mk_node nm par cs (Some [''posterior'' \<mapsto> 0.95]) x v) = [SupportMarker x v High]"
    by (simp add: support_marker_cases posterior_of_traits mk_node_def)
  have 7: "support_marker (mk_node nm par cs (Some [''posterior'' \<mapsto> 0.9499]) x v) = [SupportMarker x v Medium]"
    by (simp add: support_marker_cases posterior_of_traits mk_node_def)
  have 8: "support_marker (mk_node nm par cs (Some [''posterior'' \<mapsto> 0.74]) x v) = []"
    by (simp add: support_marker_cases posterior_of_traits mk_node_def)
  from 1 2 3 4 5 6 7 8 show ?thesis by blast
qed

theorem support_marker_tiers_witness:
  "posterior_of (heap example_tree 1) = Some 0.95 \<and>
   support_marker (heap example_tree 1) = [SupportMarker 3 (1 / 2) High] \<and>
   posterior_of (heap example_tree 0) = None \<and>
   support_marker (heap example_tree 0) = []"
proof -
  have a: "posterior_of (heap example_tree 1) = Some 0.95"
    and b: "posterior_of (heap example_tree 0) = None"
    and c: "absoluteTime (heap example_tree 1) = 3" "ypos (heap example_tree 1) = 1 / 2"
    by (simp_all add: posterior_of_traits example_tree_def example_heap_simps mk_node_def)
  have "(support_marker (heap example_tree 1) =
          [SupportMarker (absoluteTime (heap example_tree 1)) (ypos (heap example_tree 1)) High]) =
        (\<exists>p. posterior_of (heap example_tree 1) = Some p \<and> 0.95 \<le> p)"
    using support_marker_tiers[of "heap example_tree 1"] by (rule conjunct1)
  moreover have "\<exists>p. posterior_of (heap example_tree 1) = Some p \<and> 0.95 \<le> p"
    using a by (intro exI[of _ "0.95"]) simp
  ultimately have 1: "support_marker (heap example_tree 1) = [SupportMarker 3 (1 / 2) High]"
    using c by simp
  have "(support_marker (heap example_tree 0) = []) =
     (posterior_of (heap example_tree 0) = None \<or>
      (\<exists>p. posterior_of (heap example_tree 0) = Some p \<and> p < 0.75))"
    using support_marker_tiers[of "heap example_tree 0"] by blast
  with b have 2: "support_marker (heap example_tree 0) = []" by blast
  from a b 1 2 show ?thesis by blast
qed

section \<open>Axis limits\<close>

lemma length_sorted_tips: "length (sorted_tips t) = length (getExternal t)"
  by (simp add: sorted_tips_def)

lemma axis_limits_nonempty:
  assumes "Objects t \<noteq> []"
  shows "axis_limits t =
           Inr \<lparr>xlim = (Min (set (all_times t)) - (Max (set (all_times t)) - Min (set (all_times t))) * 0.05,
                       Max (set (all_times t)) + (Max (set (all_times t)) - Min (set (all_times t))) * 0.3),
                ylim = (- 0.5, real (length (getExternal t)) - 0.5)\<rparr>"
proof -
  from assms have ne: "map (\<lambda>k. absoluteTime (heap t k)) (Objects t) \<noteq> []" by simp
  show ?thesis
    unfolding axis_limits_def all_times_def
    by (simp add: py_min_Min[OF ne] py_max_Max[OF ne] length_sorted_tips Let_def
        del: py_min.simps py_max.simps)
qed

text \<open>
  Claim C8. When the tree has at least one object, lines 105-113 set the horizontal range
  to \<open>[lo - 0.05 * span, hi + 0.3 * span]\<close>, where \<open>lo\<close> and \<open>hi\<close> are the least and greatest
  \<^verbatim>\<open>absoluteTime\<close> over all objects and \<open>span = hi - lo\<close>, and the vertical range to
  \<open>[-0.5, leaf_count - 0.5]\<close>. Times are real numbers here, so the products are exact.
\<close>

theorem axis_limits_formula:
  assumes "Objects t \<noteq> []"
  shows "axis_limits t =
           Inr \<lparr>xlim = (Min (set (all_times t)) - (Max (set (all_times t)) - Min (set (all_times t))) * 0.05,
                       Max (set (all_times t)) + (Max (set (all_times t)) - Min (set (all_times t))) * 0.3),
                ylim = (- 0.5, real (length (getExternal t)) - 0.5)\<rparr>"
  using assms by (rule axis_limits_nonempty)

lemma example_times: "all_times example_tree = [4, 3, 2, 1, 0]"
  by (simp add: all_times_def example_tree_def example_heap_simps mk_node_def)

lemma example_external: "getExternal example_tree = [2, 3, 4]"
  by (simp add: getExternal_def example_tree_def example_heap_simps mk_node_def)

theorem axis_limits_formula_witness:
  "Objects example_tree \<noteq> [] \<and>
   axis_limits example_tree = Inr \<lparr>xlim = (- 0.2, 5.2), ylim = (- 0.5, 2.5)\<rparr>"
proof -
  have o: "Objects example_tree \<noteq> []" by (simp add: example_tree_def)
  from axis_limits_formula[OF o]
  have "axis_limits example_tree = Inr \<lparr>xlim = (- 0.2, 5.2), ylim = (- 0.5, 2.5)\<rparr>"
    by (simp add: example_times example_external)
  with o show ?thesis by simp
qed

section \<open>Tip labels\<close>

lemma map_y_labels:
  "map primitive_y (draw_tip_labels t) = map (\<lambda>k. ypos (heap t k)) (sorted_tips t)"
  by (simp add: draw_tip_labels_def comp_def)

lemma map_insort_key: "map f (insort_key f x xs) = insort (f x) (map f xs)"
  by (induction xs) simp_all

lemma map_sort_key: "map f (sort_key f xs) = sort (map f xs)"
  by (induction xs) (simp_all add: map_insort_key)

text \<open>
  Claim C10. The labels are drawn in the order of \<^verbatim>\<open>sorted(..., key=y)\<close>: their vertical
  coordinates, in drawing order, are the sorted list of the leaves' positions, and they
  increase strictly when the leaves' positions are pairwise different (which the vertical
  layout provides).
\<close>

theorem tip_labels_in_order:
  "map primitive_y (draw_tip_labels t) = sort (map (\<lambda>k. ypos (heap t k)) (getExternal t)) \<and>
   sorted (map primitive_y (draw_tip_labels t)) \<and>
   (distinct (map (\<lambda>k. ypos (heap t k)) (getExternal t)) \<longrightarrow>
      sorted_wrt (<) (map primitive_y (draw_tip_labels t)))"
proof -
  let ?ys = "map (\<lambda>k. ypos (heap t k)) (getExternal t)"
  have 1: "map primitive_y (draw_tip_labels t) = sort ?ys"
    by (simp add: map_y_labels sorted_tips_def map_sort_key)
  have 2: "sorted (sort ?ys)" by simp
  have 3: "distinct ?ys \<longrightarrow> sorted_wrt (<) (sort ?ys)"
    by (simp add: strict_sorted_iff)
  from 1 2 3 show ?thesis by simp
qed

theorem tip_labels_in_order_witness:
  "distinct (map (\<lambda>k. ypos (heap example_tree k)) (getExternal example_tree)) \<and>
   map primitive_y (draw_tip_labels example_tree) = [0, 1, 2] \<and>
   sorted_wrt (<) (map primitive_y (draw_tip_labels example_tree))"
proof -
  have ys: "map (\<lambda>k. ypos (heap example_tree k)) (getExternal example_tree) = [0, 1, 2]"
    by (simp add: example_external) (simp add: example_tree_def example_heap_simps mk_node_def)
  then have d: "distinct (map (\<lambda>k. ypos (heap example_tree k)) (getExternal example_tree))"
    by simp
  from tip_labels_in_order[of example_tree] d
  have s: "sorted_wrt (<) (map primitive_y (draw_tip_labels example_tree))" by blast
  from tip_labels_in_order[of example_tree]
  have "map primitive_y (draw_tip_labels example_tree) =
      sort (map (\<lambda>k. ypos (heap example_tree k)) (getExternal example_tree))"
    by blast
  then have "map primitive_y (draw_tip_labels example_tree) = [0, 1, 2]"
    by (simp add: ys)
  with d s show ?thesis by blast
qed

section \<open>Loading\<close>

text \<open>
  Claim C6, as stated, fails: when both parsers raise, the program prints the message of
  the second failure only and exits with status 1, whereas the policy of the spec raises
  one \<open>MalformedTreeError\<close> that aggregates both failures.
\<close>

theorem load_tree_exits_counterexample:
  "load_tree failing_nexus failing_newick ''tree.nwk'' =
     SysExit 1 ''Error loading tree: not a newick file'' \<and>
   load_by_strategies [failing_nexus, failing_newick] ''tree.nwk'' =
     MalformedTreeError [Exception ''not a nexus file'', Exception ''not a newick file''] \<and>
   load_tree failing_nexus failing_newick ''tree.nwk'' \<noteq>
     load_by_strategies [failing_nexus, failing_newick] ''tree.nwk''"
  by (simp add: load_tree_def load_by_strategies_def failing_nexus_def failing_newick_def)

text \<open>
  Claim C6, amended. Loading tries the Nexus parser and then, when that raises, the Newick
  parser; the first success wins, which is also where the program and the policy of the
  spec agree. When both raise and the second exception is an \<^verbatim>\<open>Exception\<close>, the program
  prints \<^verbatim>\<open>Error loading tree:\<close> with the second message and exits with status 1; the first
  failure is dropped. Any other exception of the second parser propagates unchanged.
\<close>

theorem load_tree_fallback:
  "(loadNexus f = Inr tr \<longrightarrow> load_tree loadNexus loadNewick f = Loaded tr) \<and>
   (loadNexus f = Inl e1 \<and> loadNewick f = Inr tr \<longrightarrow> load_tree loadNexus loadNewick f = Loaded tr) \<and>
   (loadNexus f = Inl e1 \<and> loadNewick f = Inl (Exception msg) \<longrightarrow>
      load_tree loadNexus loadNewick f = SysExit 1 (''Error loading tree: '' @ msg)) \<and>
   (loadNexus f = Inl e1 \<and> loadNewick f = Inl (BaseException msg) \<longrightarrow>
      load_tree loadNexus loadNewick f = Propagated (BaseException msg)) \<and>
   (load_by_strategies [loadNexus, loadNewick] f = Loaded tr \<longrightarrow>
      load_tree loadNexus loadNewick f = Loaded tr) \<and>
   (load_tree loadNexus loadNewick f = Loaded tr \<longrightarrow>
      load_by_strategies [loadNexus, loadNewick] f = Loaded tr)"
  by (auto simp: load_tree_def load_by_strategies_def split: sum.splits exn.splits)

theorem load_tree_fallback_witness:
  "failing_nexus ''tree.nwk'' = Inl (Exception ''not a nexus file'') \<and>
   working_newick ''tree.nwk'' = Inr single_tree \<and>
   load_tree failing_nexus working_newick ''tree.nwk'' = Loaded single_tree \<and>
   failing_newick ''tree.nwk'' = Inl (Exception ''not a newick file'') \<and>
   load_tree failing_nexus failing_newick ''tree.nwk'' =
     SysExit 1 ''Error loading tree: not a newick file''"
proof -
  have a: "failing_nexus ''tree.nwk'' = Inl (Exception ''not a nexus file'')"
    and b: "working_newick ''tree.nwk'' = Inr single_tree"
    and c: "failing_newick ''tree.nwk'' = Inl (Exception ''not a newick file'')"
    by (simp_all add: failing_nexus_def working_newick_def failing_newick_def)
  from load_tree_fallback[of failing_nexus "''tree.nwk''" _ working_newick "Exception ''not a nexus file''"] a b
  have 1: "load_tree failing_nexus working_newick ''tree.nwk'' = Loaded single_tree" by blast
  from load_tree_fallback[of failing_nexus "''tree.nwk''" _ failing_newick "Exception ''not a nexus file''" "''not a newick file''"] a c
  have 2: "load_tree failing_nexus failing_newick ''tree.nwk'' =
     SysExit 1 (''Error loading tree: '' @ ''not a newick file'')" by blast
  from a b c 1 2 show ?thesis by simp
qed


section \<open>Time propagation\<close>

lemma times_set_times:
  "map absolute_time (all_nodes (set_times a h d t)) =
     map (\<lambda>x. Some (a - (h - x))) (node_distances d t)"
proof (induction t arbitrary: d)
  case (Node i bl tm vp cs)
  then show ?case by (simp add: map_concat comp_def cong: map_cong)
qed

lemma leaf_times_set_times:
  "map absolute_time (leaves (set_times a h d t)) =
     map (\<lambda>x. Some (a - (h - x))) (leaf_distances d t)"
proof (induction t arbitrary: d)
  case (Node i bl tm vp cs)
  then show ?case by (simp add: map_concat comp_def cong: map_cong)
qed

lemma leaf_distances_nonempty: "leaf_distances d t \<noteq> []"
proof (induction t arbitrary: d)
  case (Node i bl tm vp cs)
  show ?case
  proof (cases cs)
    case Nil
    then show ?thesis by simp
  next
    case (Cons c cs')
    with Node[of c] show ?thesis by simp
  qed
qed

lemma root_time: "absolute_time (set_times a h d t) = Some (a - (h - d))"
  by (cases t) simp

lemma propagate_times_nodes:
  "map absolute_time (all_nodes (propagate_times t)) = map Some (node_distances 0 t)"
  by (simp add: propagate_times_def setAbsoluteTime_def times_set_times)

lemma propagate_times_leaves:
  "map absolute_time (leaves (propagate_times t)) = map Some (leaf_distances 0 t)"
  by (simp add: propagate_times_def setAbsoluteTime_def leaf_times_set_times)

lemma propagate_times_root: "absolute_time (propagate_times t) = Some 0"
  by (simp add: propagate_times_def setAbsoluteTime_def root_time)

lemma time_propagation_result:
  "time_propagation t = Inr t' \<Longrightarrow> t' = propagate_times t"
  by (simp add: time_propagation_def split: if_splits)

lemma scenario_height: "tree_height scenario_tree = 4"
  by (simp add: tree_height_def scenario_tree_def)

lemma scenario_propagation:
  "time_propagation scenario_tree =
     Inr (Node ''root'' (Some (Finite 0)) (Some 0) None
       [Node ''AB'' (Some (Finite 1)) (Some 1) None
          [Node ''A'' (Some (Finite 1)) (Some 2) None [],
           Node ''B'' (Some (Finite 2)) (Some 3) None []],
        Node ''C'' (Some (Finite 4)) (Some 4) None []])"
  by (simp add: time_propagation_def propagate_times_def setAbsoluteTime_def scenario_height)
     (simp add: scenario_tree_def)

lemma single_leaf_propagation:
  "time_propagation single_leaf = Inr (Node ''A'' None (Some 0) None [])"
  by (simp add: time_propagation_def propagate_times_def setAbsoluteTime_def single_leaf_def
      tree_height_def)

text \<open>
  Claim C1, as stated, fails in its first clause: the absolute time of a node is not the
  tree height minus its cumulative distance. On the scenario tree \<^verbatim>\<open>((A:1,B:2):1,C:4):0\<close>,
  whose height is 4, the times of root, AB, A, B and C are 0, 1, 2, 3 and 4, while the tree
  height minus the cumulative distance is 4, 3, 2, 1 and 0.
\<close>

theorem height_minus_distance_counterexample:
  "map_sum id node_times (time_propagation scenario_tree) =
     Inr [Some 0, Some 1, Some 2, Some 3, Some 4] \<and>
   map (\<lambda>d. Some (tree_height scenario_tree - d)) (node_distances 0 scenario_tree) =
     [Some 4, Some 3, Some 2, Some 1, Some 0]"
proof -
  have 1: "map_sum id node_times (time_propagation scenario_tree) =
     Inr [Some 0, Some 1, Some 2, Some 3, Some 4]"
    by (simp add: scenario_propagation node_times_def)
  have 2: "map (\<lambda>d. Some (tree_height scenario_tree - d)) (node_distances 0 scenario_tree) =
     [Some 4, Some 3, Some 2, Some 1, Some 0]"
    by (simp add: scenario_height) (simp add: scenario_tree_def)
  from 1 2 show ?thesis by simp
qed

text \<open>
  Claim C1, amended. After time propagation every node's absolute time is its cumulative
  distance from the root (the tree height minus what the node lies before the most recent
  tip); so for every valid tree the root's absolute time is 0 and the greatest absolute
  time over the leaves is the tree height. For a tree with a single node the tree height
  is 0 and the node's absolute time is 0.
\<close>

theorem absolute_time_is_distance_from_root:
  assumes "time_propagation t = Inr t'"
  shows "map absolute_time (all_nodes t') = map Some (node_distances 0 t) \<and>
         absolute_time t' = Some 0 \<and>
         (\<exists>ts. map absolute_time (leaves t') = map Some ts \<and> Max (set ts) = tree_height t) \<and>
         (child_nodes t = [] \<longrightarrow> tree_height t = 0 \<and> absolute_time t' = Some 0)"
proof -
  note t' = time_propagation_result[OF assms]
  have 1: "map absolute_time (all_nodes t') = map Some (node_distances 0 t)"
    unfolding t' by (rule propagate_times_nodes)
  have 2: "absolute_time t' = Some 0"
    unfolding t' by (rule propagate_times_root)
  have "map absolute_time (leaves t') = map Some (leaf_distances 0 t)"
    unfolding t' by (rule propagate_times_leaves)
  moreover have "Max (set (leaf_distances 0 t)) = tree_height t"
    by (simp add: tree_height_def)
  ultimately have 3: "\<exists>ts. map absolute_time (leaves t') = map Some ts \<and>
      Max (set ts) = tree_height t" by blast
  have 4: "child_nodes t = [] \<longrightarrow> tree_height t = 0 \<and> absolute_time t' = Some 0"
  proof
    assume "child_nodes t = []"
    then have "tree_height t = 0" by (cases t) (simp add: tree_height_def)
    with 2 show "tree_height t = 0 \<and> absolute_time t' = Some 0" by simp
  qed
  from 1 2 3 4 show ?thesis by blast
qed

theorem absolute_time_is_distance_from_root_witness:
  "time_propagation scenario_tree =
     Inr (Node ''root'' (Some (Finite 0)) (Some 0) None
       [Node ''AB'' (Some (Finite 1)) (Some 1) None
          [Node ''A'' (Some (Finite 1)) (Some 2) None [],
           Node ''B'' (Some (Finite 2)) (Some 3) None []],
        Node ''C'' (Some (Finite 4)) (Some 4) None []]) \<and>
   tree_height scenario_tree = 4 \<and>
   (\<exists>ts. map absolute_time (leaves
       (Node ''root'' (Some (Finite 0)) (Some 0) None
         [Node ''AB'' (Some (Finite 1)) (Some 1) None
            [Node ''A'' (Some (Finite 1)) (Some 2) None [],
             Node ''B'' (Some (Finite 2)) (Some 3) None []],
          Node ''C'' (Some (Finite 4)) (Some 4) None []])) = map Some ts \<and>
      Max (set ts) = 4) \<and>
   child_nodes single_leaf = [] \<and> tree_height single_leaf = 0 \<and>
   time_propagation single_leaf = Inr (Node ''A'' None (Some 0) None [])"
proof -
  have c: "child_nodes single_leaf = []" by (simp add: single_leaf_def)
  from absolute_time_is_distance_from_root[OF single_leaf_propagation] c
  have s: "tree_height single_leaf = 0" by blast
  from absolute_time_is_distance_from_root[OF scenario_propagation]
  have "\<exists>ts. map absolute_time (leaves
       (Node ''root'' (Some (Finite 0)) (Some 0) None
         [Node ''AB'' (Some (Finite 1)) (Some 1) None
            [Node ''A'' (Some (Finite 1)) (Some 2) None [],
             Node ''B'' (Some (Finite 2)) (Some 3) None []],
          Node ''C'' (Some (Finite 4)) (Some 4) None []])) = map Some ts \<and>
      Max (set ts) = tree_height scenario_tree" by blast
  then have m: "\<exists>ts. map absolute_time (leaves
       (Node ''root'' (Some (Finite 0)) (Some 0) None
         [Node ''AB'' (Some (Finite 1)) (Some 1) None
            [Node ''A'' (Some (Finite 1)) (Some 2) None [],
             Node ''B'' (Some (Finite 2)) (Some 3) None []],
          Node ''C'' (Some (Finite 4)) (Some 4) None []])) = map Some ts \<and>
      Max (set ts) = 4" by (simp only: scenario_height)
  from m c s scenario_propagation scenario_height single_leaf_propagation
  show ?thesis by blast
qed

section \<open>Branch lengths are not checked\<close>








lemma erase_time_set_times: "erase_time (set_times a h d t) = erase_time t"
proof (induction t arbitrary: d)
  case (Node i bl tm vp cs)
  then show ?case by (simp add: comp_def cong: map_cong)
qed






section \<open>Vertical layout\<close>

lemma layouts_length: "length (snd (layouts k cs)) = length cs"
  by (induction cs arbitrary: k) (simp_all add: case_prod_beta)

lemma layouts_Nil: "(snd (layouts k cs) = []) = (cs = [])"
  using layouts_length[of k cs] by (metis length_0_conv)

lemma layout_count:
  "fst (layout k t) = k + length (leaves t)"
  "fst (layouts k cs) = k + length (concat (map leaves cs))"
proof (induction k t and k cs rule: layout_layouts.induct)
  case (1 k i bl tm vp cs)
  then show ?case by (simp add: case_prod_beta)
next
  case (2 k)
  then show ?case by simp
next
  case (3 k c cs)
  from 3(1) 3(2)[OF prod.collapse] show ?case by (simp add: case_prod_beta)
qed

lemma layout_leaf_positions:
  "map vertical_position (leaves (snd (layout k t))) =
     map (\<lambda>i. Some (real i)) [k..<k + length (leaves t)]"
  "map vertical_position (concat (map leaves (snd (layouts k cs)))) =
     map (\<lambda>i. Some (real i)) [k..<k + length (concat (map leaves cs))]"
proof (induction k t and k cs rule: layout_layouts.induct)
  case (1 k i bl tm vp cs)
  then show ?case by (simp add: case_prod_beta layouts_Nil)
next
  case (2 k)
  then show ?case by simp
next
  case (3 k c cs)
  let ?a = "length (leaves c)" and ?b = "length (concat (map leaves cs))"
  let ?f = "\<lambda>i::nat. Some (real i)"
  have f: "fst (layout k c) = k + ?a" by (rule layout_count(1))
  from 3(2)[OF prod.collapse]
  have ih2: "map vertical_position (concat (map leaves (snd (layouts (k + ?a) cs)))) =
      map ?f [k + ?a..<k + ?a + ?b]"
    by (simp only: f)
  have "snd (layouts k (c # cs)) = snd (layout k c) # snd (layouts (k + ?a) cs)"
    by (simp add: case_prod_beta f)
  then have "map vertical_position (concat (map leaves (snd (layouts k (c # cs))))) =
      map vertical_position (leaves (snd (layout k c))) @
      map vertical_position (concat (map leaves (snd (layouts (k + ?a) cs))))"
    by simp
  also have "\<dots> = map ?f [k..<k + ?a] @ map ?f [k + ?a..<k + ?a + ?b]"
    by (simp only: 3(1) ih2)
  also have "\<dots> = map ?f ([k..<k + ?a] @ [k + ?a..<k + ?a + ?b])"
    by (simp only: map_append)
  also have "[k..<k + ?a] @ [k + ?a..<k + ?a + ?b] = [k..<k + ?a + ?b]"
    by (rule upt_add_eq_append[symmetric]) simp
  also have "k + ?a + ?b = k + length (concat (map leaves (c # cs)))"
    by simp
  finally show ?case .
qed

lemma erase_position_layout:
  "erase_position (snd (layout k t)) = erase_position t"
  "map erase_position (snd (layouts k cs)) = map erase_position cs"
proof (induction k t and k cs rule: layout_layouts.induct)
  case (1 k i bl tm vp cs)
  then show ?case by (simp add: case_prod_beta)
next
  case (2 k)
  then show ?case by simp
next
  case (3 k c cs)
  from 3(1) 3(2)[OF prod.collapse] show ?case by (simp add: case_prod_beta)
qed

lemma position_position_tree: "position (position_tree c) = position c"
  by (cases c) (simp add: position_def)

lemma layout_topology:
  "layout k (topology t) = (fst (layout k t), position_tree (snd (layout k t)))"
  "layouts k (map topology cs) = (fst (layouts k cs), map position_tree (snd (layouts k cs)))"
proof (induction k t and k cs rule: layout_layouts.induct)
  case (1 k i bl tm vp cs)
  then show ?case by (simp add: case_prod_beta layouts_Nil comp_def position_position_tree)
next
  case (2 k)
  then show ?case by simp
next
  case (3 k c cs)
  from 3(1) 3(2)[OF prod.collapse] show ?case by (simp add: case_prod_beta)
qed
lemma branch_length_erase_position: "branch_length (erase_position c) = branch_length c"
  by (cases c) simp

lemma branch_length_erase_time: "branch_length (erase_time c) = branch_length c"
  by (cases c) simp

lemma node_distances_erase_position: "node_distances d (erase_position t) = node_distances d t"
proof (induction t arbitrary: d)
  case (Node i bl tm vp cs)
  then show ?case by (simp add: comp_def branch_length_erase_position cong: map_cong)
qed

lemma node_distances_erase_time: "node_distances d (erase_time t) = node_distances d t"
proof (induction t arbitrary: d)
  case (Node i bl tm vp cs)
  then show ?case by (simp add: comp_def branch_length_erase_time cong: map_cong)
qed

lemma leaf_distances_erase_position: "leaf_distances d (erase_position t) = leaf_distances d t"
proof (induction t arbitrary: d)
  case (Node i bl tm vp cs)
  then show ?case by (simp add: comp_def branch_length_erase_position cong: map_cong)
qed

lemma leaf_distances_erase_time: "leaf_distances d (erase_time t) = leaf_distances d t"
proof (induction t arbitrary: d)
  case (Node i bl tm vp cs)
  then show ?case by (simp add: comp_def branch_length_erase_time cong: map_cong)
qed

lemma valid_lengths_erase_position: "valid_lengths (erase_position t) = valid_lengths t"
proof (induction t)
  case (Node i bl tm vp cs)
  then show ?case by (simp add: valid_lengths_def map_concat comp_def cong: map_cong)
qed

lemma valid_lengths_erase_time: "valid_lengths (erase_time t) = valid_lengths t"
proof (induction t)
  case (Node i bl tm vp cs)
  then show ?case by (simp add: valid_lengths_def map_concat comp_def cong: map_cong)
qed

lemma node_times_erase_position: "node_times (erase_position t) = node_times t"
proof (induction t)
  case (Node i bl tm vp cs)
  then show ?case by (simp add: node_times_def map_concat comp_def cong: map_cong)
qed

lemma node_positions_erase_time: "node_positions (erase_time t) = node_positions t"
proof (induction t)
  case (Node i bl tm vp cs)
  then show ?case by (simp add: node_positions_def map_concat comp_def cong: map_cong)
qed

lemma node_positions_position_tree: "node_positions (position_tree t) = node_positions t"
proof (induction t)
  case (Node i bl tm vp cs)
  then show ?case by (simp add: node_positions_def map_concat comp_def cong: map_cong)
qed

lemma topology_erase_position: "topology (erase_position t) = topology t"
  by (induction t) (simp add: comp_def cong: map_cong)

lemma topology_erase_time: "topology (erase_time t) = topology t"
  by (induction t) (simp add: comp_def cong: map_cong)

lemma set_times_keeps:
  "node_distances e (set_times a h d t) = node_distances e t"
  "leaf_distances e (set_times a h d t) = leaf_distances e t"
  "valid_lengths (set_times a h d t) = valid_lengths t"
  "node_positions (set_times a h d t) = node_positions t"
  "topology (set_times a h d t) = topology t"
proof -
  show "node_distances e (set_times a h d t) = node_distances e t"
    using node_distances_erase_time[of e "set_times a h d t"] node_distances_erase_time[of e t]
    by (simp add: erase_time_set_times)
  show "leaf_distances e (set_times a h d t) = leaf_distances e t"
    using leaf_distances_erase_time[of e "set_times a h d t"] leaf_distances_erase_time[of e t]
    by (simp add: erase_time_set_times)
  show "valid_lengths (set_times a h d t) = valid_lengths t"
    using valid_lengths_erase_time[of "set_times a h d t"] valid_lengths_erase_time[of t]
    by (simp add: erase_time_set_times)
  show "node_positions (set_times a h d t) = node_positions t"
    using node_positions_erase_time[of "set_times a h d t"] node_positions_erase_time[of t]
    by (simp add: erase_time_set_times)
  show "topology (set_times a h d t) = topology t"
    using topology_erase_time[of "set_times a h d t"] topology_erase_time[of t]
    by (simp add: erase_time_set_times)
qed

lemma layout_keeps:
  "node_distances e (snd (layout k t)) = node_distances e t"
  "leaf_distances e (snd (layout k t)) = leaf_distances e t"
  "valid_lengths (snd (layout k t)) = valid_lengths t"
  "node_times (snd (layout k t)) = node_times t"
  "topology (snd (layout k t)) = topology t"
proof -
  show "node_distances e (snd (layout k t)) = node_distances e t"
    using node_distances_erase_position[of e "snd (layout k t)"] node_distances_erase_position[of e t]
    by (simp add: erase_position_layout)
  show "leaf_distances e (snd (layout k t)) = leaf_distances e t"
    using leaf_distances_erase_position[of e "snd (layout k t)"] leaf_distances_erase_position[of e t]
    by (simp add: erase_position_layout)
  show "valid_lengths (snd (layout k t)) = valid_lengths t"
    using valid_lengths_erase_position[of "snd (layout k t)"] valid_lengths_erase_position[of t]
    by (simp add: erase_position_layout)
  show "node_times (snd (layout k t)) = node_times t"
    using node_times_erase_position[of "snd (layout k t)"] node_times_erase_position[of t]
    by (simp add: erase_position_layout)
  show "topology (snd (layout k t)) = topology t"
    using topology_erase_position[of "snd (layout k t)"] topology_erase_position[of t]
    by (simp add: erase_position_layout)
qed

lemma node_positions_layout_topology:
  "node_positions (snd (layout k t)) = node_positions (snd (layout k (topology t)))"
  by (simp add: layout_topology node_positions_position_tree)

lemma time_propagation_valid:
  "time_propagation t =
     (if list_all (\<lambda>b. b) (valid_lengths t) then Inr (propagate_times t)
      else Inl InvalidBranchLengthError)"
  by (simp add: time_propagation_def valid_lengths_def list_all_iff)

lemma coordinates_layout_passes:
  "map_sum id coordinates (layout_passes t) =
     (if list_all (\<lambda>b. b) (valid_lengths t)
      then Inr (map (\<lambda>x. Some (Max (set (leaf_distances 0 t)) -
                         (Max (set (leaf_distances 0 t)) - x))) (node_distances 0 t),
                node_positions (snd (layout 0 (topology t))))
      else Inl InvalidBranchLengthError)"
proof (cases "list_all (\<lambda>b. b) (valid_lengths t)")
  case True
  let ?s = "propagate_times t"
  have s: "?s = set_times (tree_height t) (tree_height t) 0 t"
    by (simp add: propagate_times_def setAbsoluteTime_def)
  have "node_times (vertical_layout ?s) = node_times ?s"
    by (simp add: vertical_layout_def layout_keeps)
  also have "\<dots> = map (\<lambda>x. Some (tree_height t - (tree_height t - x))) (node_distances 0 t)"
    unfolding s node_times_def by (rule times_set_times)
  finally have a: "node_times (vertical_layout ?s) =
      map (\<lambda>x. Some (Max (set (leaf_distances 0 t)) -
                     (Max (set (leaf_distances 0 t)) - x))) (node_distances 0 t)"
    by (simp only: tree_height_def)
  have "node_positions (vertical_layout ?s) = node_positions (snd (layout 0 (topology ?s)))"
    unfolding vertical_layout_def by (rule node_positions_layout_topology)
  then have b: "node_positions (vertical_layout ?s) = node_positions (snd (layout 0 (topology t)))"
    by (simp add: s set_times_keeps)
  from True a b show ?thesis
    by (simp add: layout_passes_def time_propagation_valid coordinates_def)
next
  case False
  then show ?thesis by (simp add: layout_passes_def time_propagation_valid)
qed

lemma erase_keeps:
  "valid_lengths (erase t) = valid_lengths t"
  "leaf_distances d (erase t) = leaf_distances d t"
  "node_distances d (erase t) = node_distances d t"
  "topology (erase t) = topology t"
  by (simp_all add: erase_def valid_lengths_erase_time valid_lengths_erase_position
      leaf_distances_erase_time leaf_distances_erase_position
      node_distances_erase_time node_distances_erase_position
      topology_erase_time topology_erase_position)

lemma coordinates_erase:
  "map_sum id coordinates (layout_passes (erase t)) = map_sum id coordinates (layout_passes t)"
  by (simp only: coordinates_layout_passes erase_keeps)

lemma layout_passes_result:
  assumes "layout_passes t = Inr u"
  shows "u = vertical_layout (set_times (tree_height t) (tree_height t) 0 t)"
    and "list_all (\<lambda>b. b) (valid_lengths t)"
  using assms
  by (auto simp: layout_passes_def time_propagation_valid propagate_times_def setAbsoluteTime_def
      split: if_splits)

lemma passes_keep:
  assumes "layout_passes t = Inr u"
  shows "valid_lengths u = valid_lengths t" "leaf_distances d u = leaf_distances d t"
    "node_distances d u = node_distances d t" "topology u = topology t"
  unfolding layout_passes_result(1)[OF assms] vertical_layout_def
  by (simp_all add: layout_keeps set_times_keeps)

lemma scenario_passes: "layout_passes scenario_tree = Inr scenario_result"
  by (simp add: layout_passes_def time_propagation_def propagate_times_def setAbsoluteTime_def
      tree_height_def scenario_tree_def vertical_layout_def scenario_result_def mean_def
      position_def)

lemma scenario_erase: "erase scenario_result = erase scenario_tree"
  by (simp add: erase_def scenario_result_def scenario_tree_def)

lemma scenario_topology: "topology scenario_result = topology scenario_tree"
  by (simp add: scenario_result_def scenario_tree_def)

text \<open>
  Claim C9. Running both passes on the tree they returned succeeds again and gives every
  node the same absolute time and the same vertical position. The coordinates depend on the
  tree only through its shape, the order of the children and the branch lengths: two trees
  that differ in the coordinates they held before have the same outcome, and two trees of
  the same shape get the same vertical positions.
\<close>

theorem layout_passes_deterministic:
  "(layout_passes t = Inr u \<longrightarrow>
      (\<exists>w. layout_passes u = Inr w \<and> node_times w = node_times u \<and>
           node_positions w = node_positions u)) \<and>
   (erase t1 = erase t2 \<longrightarrow>
      map_sum id coordinates (layout_passes t1) = map_sum id coordinates (layout_passes t2)) \<and>
   (topology t1 = topology t2 \<longrightarrow>
      node_positions (vertical_layout t1) = node_positions (vertical_layout t2))"
proof (intro conjI impI)
  assume r: "layout_passes t = Inr u"
  have v: "list_all (\<lambda>b. b) (valid_lengths u)"
    using layout_passes_result(2)[OF r] by (simp add: passes_keep[OF r])
  then obtain w where w: "layout_passes u = Inr w"
    by (simp add: layout_passes_def time_propagation_valid)
  have "map_sum id coordinates (layout_passes u) = map_sum id coordinates (layout_passes t)"
    by (simp only: coordinates_layout_passes passes_keep[OF r])
  with r w have "coordinates w = coordinates u" by simp
  then have "node_times w = node_times u \<and> node_positions w = node_positions u"
    by (simp add: coordinates_def)
  with w show "\<exists>w. layout_passes u = Inr w \<and> node_times w = node_times u \<and>
           node_positions w = node_positions u"
    by blast
next
  assume "erase t1 = erase t2"
  then have "map_sum id coordinates (layout_passes (erase t1)) =
      map_sum id coordinates (layout_passes (erase t2))" by simp
  then show "map_sum id coordinates (layout_passes t1) = map_sum id coordinates (layout_passes t2)"
    by (simp only: coordinates_erase)
next
  assume "topology t1 = topology t2"
  then show "node_positions (vertical_layout t1) = node_positions (vertical_layout t2)"
    unfolding vertical_layout_def
    by (simp add: node_positions_layout_topology[of 0 t1] node_positions_layout_topology[of 0 t2])
qed

theorem layout_passes_deterministic_witness:
  "layout_passes scenario_tree = Inr scenario_result \<and>
   (\<exists>w. layout_passes scenario_result = Inr w \<and> node_times w = node_times scenario_result \<and>
        node_positions w = node_positions scenario_result) \<and>
   erase scenario_result = erase scenario_tree \<and>
   map_sum id coordinates (layout_passes scenario_result) =
     map_sum id coordinates (layout_passes scenario_tree) \<and>
   topology scenario_result = topology scenario_tree \<and>
   node_positions (vertical_layout scenario_result) =
     node_positions (vertical_layout scenario_tree)"
proof -
  note th = layout_passes_deterministic[of scenario_tree scenario_result scenario_result scenario_tree]
  from th scenario_passes
  have 1: "\<exists>w. layout_passes scenario_result = Inr w \<and> node_times w = node_times scenario_result \<and>
        node_positions w = node_positions scenario_result" by blast
  from th scenario_erase
  have 2: "map_sum id coordinates (layout_passes scenario_result) =
     map_sum id coordinates (layout_passes scenario_tree)" by blast
  from th scenario_topology
  have 3: "node_positions (vertical_layout scenario_result) =
     node_positions (vertical_layout scenario_tree)" by blast
  from 1 2 3 scenario_passes scenario_erase scenario_topology show ?thesis by blast
qed

section \<open>Tip labels and leaf slots\<close>

lemma draw_node_no_labels:
  "draw_node t n = Inr ps \<Longrightarrow> filter is_tip_label ps = []"
  by (auto simp: draw_node_def Let_def split: option.splits list.splits if_splits sum.splits)

lemma collect_filter_empty:
  assumes "\<And>x ps. f x = Inr ps \<Longrightarrow> filter P ps = []"
  shows "collect f xs = Inr qs \<Longrightarrow> filter P qs = []"
proof (induction xs arbitrary: qs)
  case Nil
  then show ?case by simp
next
  case (Cons a xs)
  from Cons.prems obtain ps rs where "f a = Inr ps" "collect f xs = Inr rs" "qs = ps @ rs"
    by (auto split: sum.splits)
  with Cons.IH[of rs] assms[of a ps] show ?case by simp
qed

lemma draw_branches_no_labels: "draw_branches t = Inr segs \<Longrightarrow> filter is_tip_label segs = []"
  unfolding draw_branches_def by (rule collect_filter_empty[OF draw_node_no_labels])

lemma support_marker_no_labels: "filter is_tip_label (support_marker nd) = []"
  by (cases "posterior_of nd") (simp_all add: support_marker_cases)

lemma draw_markers_no_labels: "filter is_tip_label (draw_markers t) = []"
  by (simp add: draw_markers_def filter_concat comp_def support_marker_no_labels)

lemma draw_tip_labels_all_labels: "filter is_tip_label (draw_tip_labels t) = draw_tip_labels t"
  by (simp add: draw_tip_labels_def)

lemma length_draw_tip_labels: "length (draw_tip_labels t) = length (getExternal t)"
  by (simp add: draw_tip_labels_def sorted_tips_def)

lemma plot_tip_labels:
  assumes "plot_timetree s = Inr pl"
  shows "filter is_tip_label (primitives pl) = draw_tip_labels s"
proof -
  from assms obtain segs ax where s: "draw_branches s = Inr segs"
    and p: "pl = \<lparr>primitives = segs @ draw_tip_labels s @ draw_markers s, limits = ax\<rparr>"
    by (auto simp: plot_timetree_def split: sum.splits)
  from p have "filter is_tip_label (primitives pl) =
      filter is_tip_label segs @ filter is_tip_label (draw_tip_labels s) @
      filter is_tip_label (draw_markers s)" by simp
  then show ?thesis
    by (simp only: draw_branches_no_labels[OF s] draw_markers_no_labels
        draw_tip_labels_all_labels append_Nil append_Nil2)
qed

lemma example_plot_returns: "\<exists>pl. plot_timetree example_tree = Inr pl"
proof -
  have o: "Objects example_tree \<noteq> []" by (simp add: example_tree_def)
  from draw_branches_wf[OF wf_example_tree] axis_limits_nonempty[OF o]
  show ?thesis by (simp add: plot_timetree_def)
qed

lemma leaf_ids_erase_position: "map node_id (leaves (erase_position t)) = map node_id (leaves t)"
proof (induction t)
  case (Node i bl tm vp cs)
  then show ?case by (simp add: map_concat comp_def cong: map_cong)
qed

lemma leaf_ids_layout: "map node_id (leaves (vertical_layout t)) = map node_id (leaves t)"
proof -
  have "map node_id (leaves (vertical_layout t)) =
      map node_id (leaves (erase_position (vertical_layout t)))"
    by (simp only: leaf_ids_erase_position)
  also have "\<dots> = map node_id (leaves (erase_position t))"
    by (simp add: vertical_layout_def erase_position_layout)
  also have "\<dots> = map node_id (leaves t)" by (rule leaf_ids_erase_position)
  finally show ?thesis .
qed

lemma leaf_slots_layout:
  "map vertical_position (leaves (vertical_layout t)) =
     map Some (map real [0..<length (leaves t)])"
  using layout_leaf_positions(1)[of 0 t] by (simp add: vertical_layout_def comp_def)

lemma scenario_leaf_ids: "map node_id (leaves scenario_tree) = [''A'', ''B'', ''C'']"
  by (simp add: scenario_tree_def)

text \<open>
  Claim C5. The program draws as many tip labels as the tree has leaves (lines 84-88, also
  within the whole list of primitives). The vertical layout changes nothing but the
  vertical positions, so the nodes, the order of the children and with them the leaves in
  input order stay as they are; the positions it gives to the leaves in that order are
  set, as many as there are leaves, strictly increasing and pairwise different.
\<close>

theorem tip_labels_and_leaf_slots:
  "length (draw_tip_labels s) = length (getExternal s) \<and>
   (plot_timetree s = Inr pl \<longrightarrow>
      length (filter is_tip_label (primitives pl)) = length (getExternal s)) \<and>
   erase_position (vertical_layout t) = erase_position t \<and>
   map node_id (leaves (vertical_layout t)) = map node_id (leaves t) \<and>
   (\<exists>ys. map vertical_position (leaves (vertical_layout t)) = map Some ys \<and>
         length ys = length (leaves t) \<and> sorted_wrt (<) ys \<and> distinct ys)"
proof -
  have 1: "length (draw_tip_labels s) = length (getExternal s)"
    by (rule length_draw_tip_labels)
  have 2: "plot_timetree s = Inr pl \<longrightarrow>
      length (filter is_tip_label (primitives pl)) = length (getExternal s)"
    by (simp add: plot_tip_labels length_draw_tip_labels)
  have 3: "erase_position (vertical_layout t) = erase_position t"
    by (simp add: vertical_layout_def erase_position_layout)
  have 4: "map node_id (leaves (vertical_layout t)) = map node_id (leaves t)"
    by (rule leaf_ids_layout)
  let ?ys = "map real [0..<length (leaves t)]"
  have a: "map vertical_position (leaves (vertical_layout t)) = map Some ?ys"
    by (rule leaf_slots_layout)
  have b: "length ?ys = length (leaves t)" by simp
  have c: "sorted_wrt (<) ?ys" by (simp add: sorted_wrt_map)
  have d: "distinct ?ys" by (simp add: distinct_map inj_on_def)
  from a b c d have 5: "\<exists>ys. map vertical_position (leaves (vertical_layout t)) = map Some ys \<and>
         length ys = length (leaves t) \<and> sorted_wrt (<) ys \<and> distinct ys" by blast
  from 1 2 3 4 5 show ?thesis by blast
qed

theorem tip_labels_and_leaf_slots_witness:
  "length (draw_tip_labels example_tree) = 3 \<and>
   (\<exists>pl. plot_timetree example_tree = Inr pl \<and>
      length (filter is_tip_label (primitives pl)) = 3) \<and>
   map node_id (leaves (vertical_layout scenario_tree)) = [''A'', ''B'', ''C''] \<and>
   (\<exists>ys. map vertical_position (leaves (vertical_layout scenario_tree)) = map Some ys \<and>
         length ys = 3 \<and> sorted_wrt (<) ys)"
proof -
  from example_plot_returns obtain pl where pl: "plot_timetree example_tree = Inr pl" by blast
  note th = tip_labels_and_leaf_slots[of example_tree pl scenario_tree]
  have e: "length (getExternal example_tree) = 3" by (simp add: example_external)
  have l: "length (leaves scenario_tree) = 3" by (simp add: scenario_tree_def)
  from th e have 1: "length (draw_tip_labels example_tree) = 3" by simp
  from th pl e have 2: "length (filter is_tip_label (primitives pl)) = 3" by simp
  from th scenario_leaf_ids
  have 3: "map node_id (leaves (vertical_layout scenario_tree)) = [''A'', ''B'', ''C'']" by simp
  from th l
  have 4: "\<exists>ys. map vertical_position (leaves (vertical_layout scenario_tree)) = map Some ys \<and>
         length ys = 3 \<and> sorted_wrt (<) ys" by auto
  from 1 2 3 4 pl show ?thesis by blast
qed

end
